theory Spec2Isabelle
  imports Complex_Main "HOL-Library.Char_ord" "HOL-Library.List_Lexorder" "HOL-Library.Multiset"
begin

section \<open>Data model of the taxi dashboard (app.py)\<close>

text \<open>
  A data frame is the list of its rows, in row order; a column is the list of one field
  of every row. A nullable cell is an \<open>option\<close>: \<open>None\<close> stands for NaN, NaT and
  a missing value. Floating-point columns are read as real numbers: the comparisons of
  the program are the same on both, the arithmetic is the exact one (rounding is not
  modelled).

  A timestamp is the integer that a \<open>datetime64[us]\<close> column stores: microseconds since
  1970-01-01 00:00:00. A calendar date is the number of days since 1970-01-01.
\<close>

type_synonym timestamp = int
type_synonym date = int

record raw_trip =
  tpep_pickup_datetime :: "timestamp option"
  tpep_dropoff_datetime :: "timestamp option"
  PULocationID :: "int option"
  DOLocationID :: "int option"
  trip_distance :: "real option"
  fare_amount :: "real option"
  total_amount :: "real option"
  payment_type :: "int option"

text \<open>The columns that \<open>load_data\<close> adds before it writes the cleaned parquet file.\<close>

record trip = raw_trip +
  trip_duration_minutes :: "real option"
  trip_speed_mph :: "real option"
  pickup_hour :: "int option"
  pickup_day_of_week :: "string option"

text \<open>The column that the script adds after loading (line 67).\<close>

record labelled_trip = trip +
  payment_label :: string

text \<open>A row of taxi_zone_lookup.csv. \<open>read_csv\<close> reads the text N/A as a missing value.\<close>

record zone =
  LocationID :: int
  Borough :: "string option"
  Zone :: "string option"
  service_zone :: "string option"

datatype py_error = ConnectionError | FileNotFoundError | IndexError | TypeError

subsection \<open>Timestamps\<close>

definition us_per_second :: int where
  "us_per_second = 1000000"

definition us_per_hour :: int where
  "us_per_hour = 3600 * us_per_second"

definition us_per_day :: int where
  "us_per_day = 24 * us_per_hour"

text \<open>Days since 1970-01-01 of a date of the proleptic Gregorian calendar.\<close>

definition days_from_civil :: "int \<Rightarrow> int \<Rightarrow> int \<Rightarrow> date" where
  "days_from_civil y m d =
     (let y' = (if m \<le> 2 then y - 1 else y);
          era = y' div 400;
          yoe = y' - era * 400;
          doy = (153 * (if m > 2 then m - 3 else m + 9) + 2) div 5 + d - 1;
          doe = yoe * 365 + yoe div 4 - yoe div 100 + doy
      in era * 146097 + doe - 719468)"

text \<open>The timestamp that pandas makes of a date string such as '2024-01-01': midnight.\<close>

definition Timestamp :: "int \<Rightarrow> int \<Rightarrow> int \<Rightarrow> timestamp" where
  "Timestamp y m d = days_from_civil y m d * us_per_day"

text \<open>The accessors \<open>.dt.date\<close>, \<open>.dt.hour\<close>, \<open>.dt.day_name()\<close> and
  \<open>.dt.total_seconds()\<close> on one cell.\<close>

definition dt_date :: "timestamp \<Rightarrow> date" where
  "dt_date t = t div us_per_day"

definition dt_hour :: "timestamp \<Rightarrow> int" where
  "dt_hour t = (t div us_per_hour) mod 24"

definition day_names :: "string list" where
  "day_names = [''Monday'', ''Tuesday'', ''Wednesday'', ''Thursday'', ''Friday'',
                ''Saturday'', ''Sunday'']"

definition dt_day_name :: "timestamp \<Rightarrow> string" where
  "dt_day_name t = day_names ! nat ((dt_date t + 3) mod 7)"

definition total_seconds :: "int \<Rightarrow> real" where
  "total_seconds delta = real_of_int delta / real_of_int us_per_second"

subsection \<open>Comparisons of a column with a scalar, and boolean indexing\<close>

text \<open>A comparison with a missing value is False, whatever the operator.\<close>

definition gt :: "('a::ord) option \<Rightarrow> 'a \<Rightarrow> bool" where
  "gt c v = (case c of None \<Rightarrow> False | Some x \<Rightarrow> x > v)"

definition ge :: "('a::ord) option \<Rightarrow> 'a \<Rightarrow> bool" where
  "ge c v = (case c of None \<Rightarrow> False | Some x \<Rightarrow> x \<ge> v)"

definition le :: "('a::ord) option \<Rightarrow> 'a \<Rightarrow> bool" where
  "le c v = (case c of None \<Rightarrow> False | Some x \<Rightarrow> x \<le> v)"

definition lt :: "('a::ord) option \<Rightarrow> 'a \<Rightarrow> bool" where
  "lt c v = (case c of None \<Rightarrow> False | Some x \<Rightarrow> x < v)"

text \<open>Comparison of two columns, cell by cell.\<close>

definition gt_cells :: "('a::ord) option \<Rightarrow> 'a option \<Rightarrow> bool" where
  "gt_cells a b = (case b of None \<Rightarrow> False | Some y \<Rightarrow> gt a y)"

text \<open>\<open>mask1 & mask2\<close> on boolean columns.\<close>

definition mask_and :: "bool list \<Rightarrow> bool list \<Rightarrow> bool list" where
  "mask_and a b = map (\<lambda>(x, y). x \<and> y) (zip a b)"

text \<open>\<open>df[mask]\<close>: the rows whose mask cell is True, in order.\<close>

definition boolean_index :: "'a list \<Rightarrow> bool list \<Rightarrow> 'a list" where
  "boolean_index df msk = map fst (filter snd (zip df msk))"

section \<open>Loading and cleaning (load data)\<close>

text \<open>\<open>df.dropna(subset=[...])\<close> with the five columns of lines 37-38.\<close>

definition dropna :: "raw_trip list \<Rightarrow> raw_trip list" where
  "dropna df = filter (\<lambda>r. tpep_pickup_datetime r \<noteq> None \<and> tpep_dropoff_datetime r \<noteq> None \<and>
                          PULocationID r \<noteq> None \<and> DOLocationID r \<noteq> None \<and>
                          fare_amount r \<noteq> None) df"

text \<open>Lines 37-44: the row filters, one after the other, as in the source.\<close>

definition clean :: "raw_trip list \<Rightarrow> raw_trip list" where
  "clean df0 =
     (let df1 = dropna df0;
          df2 = boolean_index df1 (map (\<lambda>r. gt (trip_distance r) 0) df1);
          df3 = boolean_index df2 (map (\<lambda>r. gt (fare_amount r) 0) df2);
          df4 = boolean_index df3 (map (\<lambda>r. le (fare_amount r) 500) df3);
          df5 = boolean_index df4
                  (map (\<lambda>r. gt_cells (tpep_dropoff_datetime r) (tpep_pickup_datetime r)) df4);
          df6 = boolean_index df5
                  (mask_and (map (\<lambda>r. ge (tpep_pickup_datetime r) (Timestamp 2024 1 1)) df5)
                            (map (\<lambda>r. lt (tpep_pickup_datetime r) (Timestamp 2024 2 1)) df5))
      in df6)"

text \<open>Lines 47-55: the derived columns of one row.\<close>

definition duration_minutes :: "raw_trip \<Rightarrow> real option" where
  "duration_minutes r =
     (case (tpep_dropoff_datetime r, tpep_pickup_datetime r) of
        (Some d, Some p) \<Rightarrow> Some (total_seconds (d - p) / 60)
      | _ \<Rightarrow> None)"

text \<open>\<open>(distance / (duration / 60)).where(duration > 0, other=0)\<close>: the quotient is kept
  where the condition holds and replaced by 0 elsewhere, also where the duration is missing.\<close>

definition speed_mph :: "real option \<Rightarrow> real option \<Rightarrow> real option" where
  "speed_mph distance duration =
     (if gt duration 0
      then (case (distance, duration) of
              (Some x, Some m) \<Rightarrow> Some (x / (m / 60))
            | _ \<Rightarrow> None)
      else Some 0)"

definition add_derived :: "raw_trip \<Rightarrow> trip" where
  "add_derived r =
     raw_trip.extend r
       (trip.fields (duration_minutes r)
                    (speed_mph (trip_distance r) (duration_minutes r))
                    (map_option dt_hour (tpep_pickup_datetime r))
                    (map_option dt_day_name (tpep_pickup_datetime r)))"

text \<open>Lines 36-57: what is written to the cleaned parquet file.\<close>

definition cleaned_snapshot :: "raw_trip list \<Rightarrow> trip list" where
  "cleaned_snapshot df0 = map add_derived (clean df0)"

text \<open>
  The files under data/raw, each by its parsed content (\<open>None\<close>: the file does not exist),
  and the two remote files (\<open>None\<close>: the request raises).
\<close>

record files =
  zone_csv :: "zone list option"
  raw_parquet :: "raw_trip list option"
  cleaned_parquet :: "trip list option"

record remote =
  remote_zones :: "zone list option"
  remote_trips :: "raw_trip list option"

definition fetch_zones :: "files \<Rightarrow> remote \<Rightarrow> py_error + files" where
  "fetch_zones fs web =
     (case zone_csv fs of
        Some _ \<Rightarrow> Inr fs
      | None \<Rightarrow> (case remote_zones web of
                   None \<Rightarrow> Inl ConnectionError
                 | Some z \<Rightarrow> Inr (fs\<lparr>zone_csv := Some z\<rparr>)))"

definition fetch_trips :: "files \<Rightarrow> remote \<Rightarrow> py_error + files" where
  "fetch_trips fs web =
     (case cleaned_parquet fs of
        Some _ \<Rightarrow> Inr fs
      | None \<Rightarrow> (case remote_trips web of
                   None \<Rightarrow> Inl ConnectionError
                 | Some raw \<Rightarrow> Inr (fs\<lparr>raw_parquet := Some raw,
                                        cleaned_parquet := Some (cleaned_snapshot raw)\<rparr>)))"

definition load_data :: "files \<Rightarrow> remote \<Rightarrow> py_error + (files \<times> trip list \<times> zone list)" where
  "load_data fs web =
     (case fetch_zones fs web of
        Inl e \<Rightarrow> Inl e
      | Inr fs1 \<Rightarrow>
          (case fetch_trips fs1 web of
             Inl e \<Rightarrow> Inl e
           | Inr fs2 \<Rightarrow>
               (case (cleaned_parquet fs2, zone_csv fs2) of
                  (Some df, Some zones) \<Rightarrow> Inr (fs2, df, zones)
                | _ \<Rightarrow> Inl FileNotFoundError)))"

text \<open>The cleaning invariants of one row of the snapshot.\<close>

definition cleaning_invariants :: "trip \<Rightarrow> bool" where
  "cleaning_invariants r =
     (case (tpep_pickup_datetime r, tpep_dropoff_datetime r, fare_amount r, trip_distance r) of
        (Some p, Some d, Some f, Some x) \<Rightarrow>
          PULocationID r \<noteq> None \<and> DOLocationID r \<noteq> None \<and>
          0 < x \<and> 0 < f \<and> f \<le> 500 \<and> p < d \<and>
          Timestamp 2024 1 1 \<le> p \<and> p < Timestamp 2024 2 1
      | _ \<Rightarrow> False)"

section \<open>The script after loading\<close>

subsection \<open>Payment labels (lines 66-67)\<close>

definition payment_labels :: "int \<rightharpoonup> string" where
  "payment_labels = [1 \<mapsto> ''Credit Card'', 2 \<mapsto> ''Cash'', 3 \<mapsto> ''No Charge'',
                     4 \<mapsto> ''Dispute'', 5 \<mapsto> ''Unknown'']"

text \<open>\<open>Series.map(dict)\<close>: a key that the dict lacks, and a missing cell, give a missing
  cell. \<open>fillna(v)\<close> puts \<open>v\<close> into the missing cells.\<close>

definition series_map :: "('a \<rightharpoonup> 'b) \<Rightarrow> 'a option \<Rightarrow> 'b option" where
  "series_map d c = (case c of None \<Rightarrow> None | Some k \<Rightarrow> d k)"

definition fillna :: "'a \<Rightarrow> 'a option \<Rightarrow> 'a" where
  "fillna v c = (case c of None \<Rightarrow> v | Some x \<Rightarrow> x)"

definition add_payment_label :: "trip \<Rightarrow> labelled_trip" where
  "add_payment_label r =
     trip.extend r
       (labelled_trip.fields (fillna ''Other'' (series_map payment_labels (payment_type r))))"

subsection \<open>Filters (lines 106-117)\<close>

text \<open>What the date picker returns: a tuple of dates (none, one or two when it is given a
  pair as its value, as here), or a date that is not in a tuple.\<close>

datatype date_input = DateTuple "date list" | DateValue date

fun date_bounds :: "date_input \<Rightarrow> py_error + (date \<times> date)" where
  "date_bounds (DateTuple [start_date, end_date]) = Inr (start_date, end_date)"
| "date_bounds (DateTuple (d # _)) = Inr (d, d)"
| "date_bounds (DateTuple []) = Inl IndexError"
| "date_bounds (DateValue d) = Inl TypeError"

definition isin :: "'a \<Rightarrow> 'a list \<Rightarrow> bool" where
  "isin x values = (x \<in> set values)"

definition filtered_df ::
  "labelled_trip list \<Rightarrow> date \<Rightarrow> date \<Rightarrow> int \<times> int \<Rightarrow> string list \<Rightarrow> labelled_trip list" where
  "filtered_df df start_date end_date hour_range selected_payments =
     boolean_index df
       (mask_and
         (mask_and
           (mask_and
             (mask_and
               (map (\<lambda>r. ge (map_option dt_date (tpep_pickup_datetime r)) start_date) df)
               (map (\<lambda>r. le (map_option dt_date (tpep_pickup_datetime r)) end_date) df))
             (map (\<lambda>r. ge (pickup_hour r) (fst hour_range)) df))
           (map (\<lambda>r. le (pickup_hour r) (snd hour_range)) df))
         (map (\<lambda>r. isin (payment_label r) selected_payments) df))"

text \<open>Lines 106-117 together: the bounds from the picker's value, then the filter.\<close>

definition apply_filters ::
  "labelled_trip list \<Rightarrow> date_input \<Rightarrow> int \<times> int \<Rightarrow> string list
     \<Rightarrow> py_error + labelled_trip list" where
  "apply_filters df date_range hour_range selected_payments =
     (case date_bounds date_range of
        Inl e \<Rightarrow> Inl e
      | Inr (start_date, end_date) \<Rightarrow>
          Inr (filtered_df df start_date end_date hour_range selected_payments))"

subsection \<open>Key metrics (lines 120-126)\<close>

text \<open>A Python float: NaN or a number. \<open>Series.mean()\<close> and \<open>Series.sum()\<close> skip the
  missing cells; the mean of no cell is NaN, the sum of no cell is 0.\<close>

datatype pyfloat = NaN | Fin real

definition series_mean :: "real option list \<Rightarrow> pyfloat" where
  "series_mean col =
     (let xs = List.map_filter id col
      in if xs = [] then NaN else Fin (sum_list xs / real (length xs)))"

definition series_sum :: "real option list \<Rightarrow> pyfloat" where
  "series_sum col = Fin (sum_list (List.map_filter id col))"

text \<open>Format specifications: \<open>{n:,}\<close> on an integer, \<open>{x:.pf}\<close> and \<open>{x:,.pf}\<close> on a float.
  A NaN is formatted as the text nan. A number is rounded to \<open>p\<close> decimals, half to even
  (as a real number: the binary representation of the float is not modelled).\<close>

definition digit :: "nat \<Rightarrow> char" where
  "digit d = ''0123456789'' ! d"

fun decimal :: "nat \<Rightarrow> string" where
  "decimal n = (if n < 10 then [digit n] else decimal (n div 10) @ [digit (n mod 10)])"

fun group_thousands :: "string \<Rightarrow> string" where
  "group_thousands s =
     (if length s \<le> 3 then s
      else group_thousands (take (length s - 3) s) @ '','' @ drop (length s - 3) s)"

definition format_int_comma :: "nat \<Rightarrow> string" where
  "format_int_comma n = group_thousands (decimal n)"

definition round_half_even :: "real \<Rightarrow> int" where
  "round_half_even x =
     (let f = \<lfloor>x\<rfloor>; r = x - of_int f
      in if r < 1 / 2 then f else if 1 / 2 < r then f + 1 else if even f then f else f + 1)"

definition format_fixed :: "bool \<Rightarrow> nat \<Rightarrow> real \<Rightarrow> string" where
  "format_fixed comma prec x =
     (let n = nat (round_half_even (\<bar>x\<bar> * 10 ^ prec));
          whole = decimal (n div 10 ^ prec);
          frac = decimal (n mod 10 ^ prec)
      in (if x < 0 then ''-'' else [])
         @ (if comma then group_thousands whole else whole)
         @ (if prec = 0 then [] else ''.'' @ replicate (prec - length frac) CHR ''0'' @ frac))"

definition format_float :: "bool \<Rightarrow> nat \<Rightarrow> pyfloat \<Rightarrow> string" where
  "format_float comma prec v = (case v of NaN \<Rightarrow> ''nan'' | Fin x \<Rightarrow> format_fixed comma prec x)"

text \<open>The five values handed to \<open>metric\<close>, in the order of the columns.\<close>

record metrics =
  total_trips :: string
  avg_fare :: string
  total_revenue :: string
  avg_distance :: string
  avg_duration :: string

definition key_metrics :: "labelled_trip list \<Rightarrow> metrics" where
  "key_metrics fdf =
     \<lparr>total_trips = format_int_comma (length fdf),
      avg_fare = ''$'' @ format_float False 2 (series_mean (map fare_amount fdf)),
      total_revenue = ''$'' @ format_float True 0 (series_sum (map total_amount fdf)),
      avg_distance = format_float False 2 (series_mean (map trip_distance fdf)) @ '' mi'',
      avg_duration = format_float False 1 (series_mean (map trip_duration_minutes fdf))
                       @ '' min''\<rparr>"

subsection \<open>Top pickup zones (lines 139-146)\<close>

text \<open>\<open>merge\<close> with its default, the inner join: one row for every pair of a left row and a
  right row with the same key, in the order of the left rows.\<close>

definition merge :: "labelled_trip list \<Rightarrow> zone list \<Rightarrow> (labelled_trip \<times> zone) list" where
  "merge left right =
     concat (map (\<lambda>t. map (\<lambda>z. (t, z)) (filter (\<lambda>z. PULocationID t = Some (LocationID z)) right))
                 left)"

text \<open>\<open>groupby(key).size().reset_index(name=...)\<close>: one row for every key that occurs,
  keys ascending, with the number of rows of that key. Rows without a key are left out.\<close>

definition groupby_size :: "('a \<Rightarrow> string option) \<Rightarrow> 'a list \<Rightarrow> (string \<times> nat) list" where
  "groupby_size key rows =
     (let ks = List.map_filter key rows
      in map (\<lambda>k. (k, count_list ks k)) (sort (remdups ks)))"

text \<open>\<open>sort_values('total_trips', ascending=False)\<close> sorts with the default algorithm,
  quicksort, which is not stable, and on no second column: the result is some arrangement
  of the rows with the counts descending. All such arrangements are results.\<close>

definition sort_values_desc :: "(string \<times> nat) list \<Rightarrow> (string \<times> nat) list set" where
  "sort_values_desc rows =
     {out. mset out = mset rows \<and> sorted_wrt (\<lambda>a b. snd b \<le> snd a) out}"

definition head :: "nat \<Rightarrow> 'a list \<Rightarrow> 'a list" where
  "head n rows = take n rows"

definition zone_counts :: "labelled_trip list \<Rightarrow> zone list \<Rightarrow> (string \<times> nat) list" where
  "zone_counts fdf zones = groupby_size (\<lambda>(t, z). Zone z) (merge fdf zones)"

definition top_zones :: "labelled_trip list \<Rightarrow> zone list \<Rightarrow> (string \<times> nat) list set" where
  "top_zones fdf zones = head 10 ` sort_values_desc (zone_counts fdf zones)"

text \<open>A trip has a zone when the zone lookup has a row for its pickup location id.\<close>

definition has_zone :: "zone list \<Rightarrow> labelled_trip \<Rightarrow> bool" where
  "has_zone zones t = (\<exists>z \<in> set zones. PULocationID t = Some (LocationID z))"

section \<open>Example data\<close>

definition at_time :: "date \<Rightarrow> int \<Rightarrow> int \<Rightarrow> timestamp" where
  "at_time day h m = day * us_per_day + h * us_per_hour + m * 60 * us_per_second"

text \<open>A trip on 2024-01-15 from 08:30 to 08:45, 3 miles, fare 12.5, paid by card.\<close>

definition ex_raw :: raw_trip where
  "ex_raw =
     \<lparr>tpep_pickup_datetime = Some (at_time (days_from_civil 2024 1 15) 8 30),
      tpep_dropoff_datetime = Some (at_time (days_from_civil 2024 1 15) 8 45),
      PULocationID = Some 1, DOLocationID = Some 2,
      trip_distance = Some 3, fare_amount = Some (25 / 2), total_amount = Some 15,
      payment_type = Some 1\<rparr>"

text \<open>The download: the good trip, and four trips that break one rule each (no fare, a
  fare above 500, a dropoff at the pickup time, a pickup in February), and one whose
  payment code is 99.\<close>

definition ex_download :: "raw_trip list" where
  "ex_download =
     [ex_raw,
      ex_raw\<lparr>fare_amount := None\<rparr>,
      ex_raw\<lparr>fare_amount := Some 600\<rparr>,
      ex_raw\<lparr>tpep_dropoff_datetime := tpep_pickup_datetime ex_raw\<rparr>,
      ex_raw\<lparr>tpep_pickup_datetime := Some (at_time (days_from_civil 2024 2 1) 0 0),
             tpep_dropoff_datetime := Some (at_time (days_from_civil 2024 2 1) 0 20)\<rparr>,
      ex_raw\<lparr>payment_type := Some 99, PULocationID := Some 7\<rparr>]"

definition ex_zones :: "zone list" where
  "ex_zones =
     [\<lparr>LocationID = 1, Borough = Some ''X'', Zone = Some ''A'', service_zone = None\<rparr>,
      \<lparr>LocationID = 2, Borough = Some ''X'', Zone = Some ''B'', service_zone = None\<rparr>,
      \<lparr>LocationID = 3, Borough = Some ''Y'', Zone = Some ''C'', service_zone = None\<rparr>]"

definition ex_files :: files where
  "ex_files = \<lparr>zone_csv = None, raw_parquet = None, cleaned_parquet = None\<rparr>"

definition ex_remote :: remote where
  "ex_remote = \<lparr>remote_zones = Some ex_zones, remote_trips = Some ex_download\<rparr>"

text \<open>A loaded and labelled trip that was picked up in the zone \<open>pu\<close>.\<close>

definition ex_trip :: "int \<Rightarrow> labelled_trip" where
  "ex_trip pu = add_payment_label (add_derived (ex_raw\<lparr>PULocationID := Some pu\<rparr>))"

text \<open>Five trips from zone 1 (A), three from zone 2 (B), three from zone 3 (C).\<close>

definition ex_trips :: "labelled_trip list" where
  "ex_trips = replicate 5 (ex_trip 1) @ replicate 3 (ex_trip 2) @ replicate 3 (ex_trip 3)"

text \<open>The data frame of the script after line 67, for the example download.\<close>

definition ex_df :: "labelled_trip list" where
  "ex_df = map add_payment_label (cleaned_snapshot ex_download)"

section \<open>Cleaning\<close>

lemma boolean_index_map: "boolean_index df (map P df) = filter P df"
  unfolding boolean_index_def by (induction df) auto

lemma mask_and_map: "mask_and (map P df) (map Q df) = map (\<lambda>r. P r \<and> Q r) df"
  unfolding mask_and_def by (induction df) auto

text \<open>The six row filters of \<open>clean\<close> keep the rows that pass all of them.\<close>

lemma clean_filter:
  "clean df0 =
     filter (\<lambda>r. gt (trip_distance r) 0 \<and> gt (fare_amount r) 0 \<and> le (fare_amount r) 500 \<and>
                 gt_cells (tpep_dropoff_datetime r) (tpep_pickup_datetime r) \<and>
                 ge (tpep_pickup_datetime r) (Timestamp 2024 1 1) \<and>
                 lt (tpep_pickup_datetime r) (Timestamp 2024 2 1))
       (dropna df0)"
  unfolding clean_def Let_def boolean_index_map mask_and_map filter_filter
  by (rule filter_cong) auto

lemma add_derived_raw:
  "tpep_pickup_datetime (add_derived r) = tpep_pickup_datetime r"
  "tpep_dropoff_datetime (add_derived r) = tpep_dropoff_datetime r"
  "PULocationID (add_derived r) = PULocationID r"
  "DOLocationID (add_derived r) = DOLocationID r"
  "trip_distance (add_derived r) = trip_distance r"
  "fare_amount (add_derived r) = fare_amount r"
  "total_amount (add_derived r) = total_amount r"
  "payment_type (add_derived r) = payment_type r"
  by (simp_all add: add_derived_def raw_trip.defs trip.defs)

lemma add_derived_new:
  "trip_duration_minutes (add_derived r) = duration_minutes r"
  "trip_speed_mph (add_derived r) = speed_mph (trip_distance r) (duration_minutes r)"
  "pickup_hour (add_derived r) = map_option dt_hour (tpep_pickup_datetime r)"
  "pickup_day_of_week (add_derived r) = map_option dt_day_name (tpep_pickup_datetime r)"
  by (simp_all add: add_derived_def raw_trip.defs trip.defs)

lemma clean_invariants:
  assumes "r \<in> set (clean df0)"
  shows "cleaning_invariants (add_derived r)"
  using assms unfolding clean_filter cleaning_invariants_def dropna_def
  by (auto simp: add_derived_raw gt_def ge_def le_def lt_def gt_cells_def split: option.splits)

lemma cleaned_snapshot_invariants:
  "r \<in> set (cleaned_snapshot df0) \<Longrightarrow> cleaning_invariants r"
  unfolding cleaned_snapshot_def using clean_invariants by auto

text \<open>When the cleaned parquet file is absent, \<open>load_data\<close> returns the snapshot that it
  makes of the download, and has written it.\<close>

lemma load_data_produces:
  assumes "cleaned_parquet fs = None" and "load_data fs web = Inr (fs', df, zones)"
  shows "\<exists>raw. remote_trips web = Some raw \<and> df = cleaned_snapshot raw \<and>
               cleaned_parquet fs' = Some df"
  using assms
  by (auto simp: load_data_def fetch_zones_def fetch_trips_def split: option.splits sum.splits)

text \<open>
  C1. Every row of the cleaned snapshot that \<open>load_data\<close> produces (the cleaned parquet
  file was absent, so the snapshot is made and written) satisfies the cleaning invariants:
  pickup and dropoff time, pickup and dropoff location and fare are present, the
  distance is above 0, the fare is above 0 and at most 500, the dropoff is strictly after
  the pickup, and the pickup is on or after 2024-01-01 and before 2024-02-01.
\<close>

theorem load_data_cleaning_invariants:
  assumes "cleaned_parquet fs = None" and "load_data fs web = Inr (fs', df, zones)"
  shows "cleaned_parquet fs' = Some df \<and> (\<forall>r \<in> set df. cleaning_invariants r)"
  using load_data_produces [OF assms] cleaned_snapshot_invariants by auto

lemmas time_defs =
  at_time_def Timestamp_def days_from_civil_def us_per_day_def us_per_hour_def us_per_second_def

text \<open>The two bounds of the window, in microseconds since 1970-01-01.\<close>

lemma window_bounds:
  "Timestamp 2024 1 1 = 1704067200000000" "Timestamp 2024 2 1 = 1706745600000000"
  "dt_date (Timestamp 2024 1 1) = days_from_civil 2024 1 1"
  "dt_day_name (Timestamp 2024 1 1) = ''Monday''"
  by (simp_all add: dt_day_name_def dt_date_def day_names_def time_defs)

lemma clean_ex_download:
  "clean ex_download = [ex_raw, ex_raw\<lparr>payment_type := Some 99, PULocationID := Some 7\<rparr>]"
  by (simp add: clean_filter dropna_def ex_download_def ex_raw_def gt_def ge_def le_def lt_def
        gt_cells_def time_defs del: not_None_eq)

lemma cleaned_snapshot_ex_download:
  "cleaned_snapshot ex_download =
     [add_derived ex_raw, add_derived (ex_raw\<lparr>payment_type := Some 99, PULocationID := Some 7\<rparr>)]"
  by (simp add: cleaned_snapshot_def clean_ex_download)

lemma load_data_ex:
  "load_data ex_files ex_remote =
     Inr (\<lparr>zone_csv = Some ex_zones, raw_parquet = Some ex_download,
           cleaned_parquet = Some (cleaned_snapshot ex_download)\<rparr>,
          cleaned_snapshot ex_download, ex_zones)"
  by (simp add: load_data_def fetch_zones_def fetch_trips_def ex_files_def ex_remote_def)

theorem load_data_cleaning_invariants_witness:
  "cleaned_parquet ex_files = None \<and>
   load_data ex_files ex_remote =
     Inr (\<lparr>zone_csv = Some ex_zones, raw_parquet = Some ex_download,
           cleaned_parquet = Some (cleaned_snapshot ex_download)\<rparr>,
          cleaned_snapshot ex_download, ex_zones) \<and>
   cleaned_snapshot ex_download =
     [add_derived ex_raw, add_derived (ex_raw\<lparr>payment_type := Some 99, PULocationID := Some 7\<rparr>)] \<and>
   cleaning_invariants (add_derived ex_raw)"
proof -
  have a: "cleaned_parquet ex_files = None"
    by (simp add: ex_files_def)
  from load_data_cleaning_invariants [OF a load_data_ex]
  have "\<forall>r \<in> set (cleaned_snapshot ex_download). cleaning_invariants r"
    by simp
  then have "cleaning_invariants (add_derived ex_raw)"
    unfolding cleaned_snapshot_ex_download by simp
  with a load_data_ex cleaned_snapshot_ex_download show ?thesis
    by simp
qed

section \<open>Derived columns\<close>

lemma speed_mph_formula:
  "speed_mph (Some x) (Some m) = Some (if m \<le> 0 then 0 else x / (m / 60))"
  by (simp add: speed_mph_def gt_def)

lemma speed_mph_missing_duration: "speed_mph x None = Some 0"
  by (simp add: speed_mph_def gt_def)

text \<open>
  C5. For every row of the cleaned snapshot, the trip duration in minutes is the dropoff
  time minus the pickup time, in seconds, divided by 60; and the trip speed is 0 when
  that duration is at most 0, and otherwise the trip distance divided by (duration / 60).
\<close>

theorem trip_speed_mph_formula:
  assumes "r \<in> set (cleaned_snapshot df0)"
  shows "\<exists>p d x m.
           tpep_pickup_datetime r = Some p \<and> tpep_dropoff_datetime r = Some d \<and>
           trip_distance r = Some x \<and> m = total_seconds (d - p) / 60 \<and>
           trip_duration_minutes r = Some m \<and>
           trip_speed_mph r = Some (if m \<le> 0 then 0 else x / (m / 60))"
proof -
  from assms obtain r0 where r0: "r0 \<in> set (clean df0)" and r: "r = add_derived r0"
    by (auto simp: cleaned_snapshot_def)
  from clean_invariants [OF r0] obtain p d x where
    p: "tpep_pickup_datetime r0 = Some p" and d: "tpep_dropoff_datetime r0 = Some d" and
    x: "trip_distance r0 = Some x"
    by (auto simp: cleaning_invariants_def add_derived_raw split: option.splits)
  define m where "m = total_seconds (d - p) / 60"
  have dur: "trip_duration_minutes r = Some m"
    unfolding r m_def by (simp add: add_derived_new duration_minutes_def p d)
  have speed: "trip_speed_mph r = Some (if m \<le> 0 then 0 else x / (m / 60))"
    unfolding r m_def
    by (simp only: add_derived_new duration_minutes_def p d x speed_mph_formula prod.case option.case)
  from p d x have "tpep_pickup_datetime r = Some p" "tpep_dropoff_datetime r = Some d"
    "trip_distance r = Some x"
    unfolding r by (simp_all add: add_derived_raw)
  with m_def dur speed show ?thesis
    by blast
qed

theorem trip_speed_mph_formula_witness:
  "add_derived ex_raw \<in> set (cleaned_snapshot ex_download) \<and>
   trip_duration_minutes (add_derived ex_raw) = Some 15 \<and>
   trip_speed_mph (add_derived ex_raw) = Some 12"
proof -
  have mem: "add_derived ex_raw \<in> set (cleaned_snapshot ex_download)"
    by (simp add: cleaned_snapshot_ex_download)
  from trip_speed_mph_formula [OF mem] obtain p d x m where
    p: "tpep_pickup_datetime (add_derived ex_raw) = Some p" and
    d: "tpep_dropoff_datetime (add_derived ex_raw) = Some d" and
    x: "trip_distance (add_derived ex_raw) = Some x" and
    m: "m = total_seconds (d - p) / 60" and
    dur: "trip_duration_minutes (add_derived ex_raw) = Some m" and
    speed: "trip_speed_mph (add_derived ex_raw) = Some (if m \<le> 0 then 0 else x / (m / 60))"
    by blast
  from p have p': "p = at_time (days_from_civil 2024 1 15) 8 30"
    by (simp add: add_derived_raw ex_raw_def)
  from d have d': "d = at_time (days_from_civil 2024 1 15) 8 45"
    by (simp add: add_derived_raw ex_raw_def)
  from x have x': "x = 3"
    by (simp add: add_derived_raw ex_raw_def)
  have m': "m = 15"
    unfolding m p' d' by (simp add: total_seconds_def time_defs)
  from mem dur speed show ?thesis
    unfolding m' x' by simp
qed

text \<open>The branch of a duration that is not positive, on a row that cleaning would drop.\<close>

lemma speed_zero_example:
  "trip_speed_mph (add_derived (ex_raw\<lparr>tpep_dropoff_datetime := tpep_pickup_datetime ex_raw\<rparr>)) = Some 0"
  by (simp add: add_derived_new duration_minutes_def speed_mph_formula ex_raw_def total_seconds_def)

section \<open>Payment labels\<close>

lemma add_payment_label_fields:
  "payment_label (add_payment_label r) = fillna ''Other'' (series_map payment_labels (payment_type r))"
  "trip.truncate (add_payment_label r) = r"
  "tpep_pickup_datetime (add_payment_label r) = tpep_pickup_datetime r"
  "PULocationID (add_payment_label r) = PULocationID r"
  "fare_amount (add_payment_label r) = fare_amount r"
  "total_amount (add_payment_label r) = total_amount r"
  "trip_distance (add_payment_label r) = trip_distance r"
  "trip_duration_minutes (add_payment_label r) = trip_duration_minutes r"
  "payment_type (add_payment_label r) = payment_type r"
  "pickup_hour (add_payment_label r) = pickup_hour r"
  by (simp_all add: add_payment_label_def trip.defs labelled_trip.defs)

text \<open>
  C6. The payment label of a row is determined by its payment type code: 1 is Credit
  Card, 2 is Cash, 3 is No Charge, 4 is Dispute, 5 is Unknown, and every other code (99
  for one) and a missing code is Other. The label is a new column: the payment type code
  and every other column of the row are as they were.
\<close>

theorem payment_label_mapping:
  "payment_label (add_payment_label r) =
     (case payment_type r of
        None \<Rightarrow> ''Other''
      | Some c \<Rightarrow> if c = 1 then ''Credit Card'' else if c = 2 then ''Cash''
                  else if c = 3 then ''No Charge'' else if c = 4 then ''Dispute''
                  else if c = 5 then ''Unknown'' else ''Other'') \<and>
   payment_label (add_payment_label (r\<lparr>payment_type := Some 1\<rparr>)) = ''Credit Card'' \<and>
   payment_label (add_payment_label (r\<lparr>payment_type := Some 99\<rparr>)) = ''Other'' \<and>
   payment_type (add_payment_label r) = payment_type r \<and>
   trip.truncate (add_payment_label r) = r"
  by (simp add: add_payment_label_fields fillna_def series_map_def payment_labels_def
        split: option.split)

section \<open>Filters\<close>

lemma filtered_df_filter:
  "filtered_df df start_date end_date hour_range selected_payments =
     filter (\<lambda>r. (\<exists>d. map_option dt_date (tpep_pickup_datetime r) = Some d \<and>
                      start_date \<le> d \<and> d \<le> end_date) \<and>
                 (\<exists>h. pickup_hour r = Some h \<and> fst hour_range \<le> h \<and> h \<le> snd hour_range) \<and>
                 payment_label r \<in> set selected_payments) df"
  unfolding filtered_df_def mask_and_map boolean_index_map
  by (rule filter_cong) (auto simp: ge_def le_def isin_def split: option.splits)

text \<open>The filter on the two rows of the example: both were picked up on 2024-01-15 at
  08:30, one is paid by card and the other has the label Other.\<close>

lemma ex_df_rows:
  "ex_df =
     [add_payment_label (add_derived ex_raw),
      add_payment_label (add_derived (ex_raw\<lparr>payment_type := Some 99, PULocationID := Some 7\<rparr>))]"
  by (simp add: ex_df_def cleaned_snapshot_ex_download)

lemma filtered_df_ex_df:
  "filtered_df ex_df (days_from_civil 2024 1 15) (days_from_civil 2024 1 15) (8, 8) [''Other''] =
     [add_payment_label (add_derived (ex_raw\<lparr>payment_type := Some 99, PULocationID := Some 7\<rparr>))]"
  "filtered_df ex_df (days_from_civil 2024 1 1) (days_from_civil 2024 1 31) (0, 23)
     [''Credit Card'', ''Other''] = ex_df"
  "filtered_df ex_df (days_from_civil 2024 1 1) (days_from_civil 2024 1 31) (9, 23)
     [''Credit Card'', ''Other''] = []"
  by (simp_all add: filtered_df_filter ex_df_rows add_payment_label_fields add_derived_raw
        add_derived_new fillna_def series_map_def payment_labels_def ex_raw_def dt_date_def
        dt_hour_def time_defs)

text \<open>
  C2. For every data frame, date range, hour range and list of payment labels, the filter
  returns exactly the rows whose pickup date is in the date range, whose pickup hour is in
  the hour range and whose payment label is one of the labels, in their order: a row is
  in the output if and only if it is a row of the input that satisfies all three.
\<close>

theorem filtered_df_exact:
  "filtered_df df start_date end_date (start_hour, end_hour) selected_payments =
     filter (\<lambda>r. (\<exists>d. map_option dt_date (tpep_pickup_datetime r) = Some d \<and>
                      start_date \<le> d \<and> d \<le> end_date) \<and>
                 (\<exists>h. pickup_hour r = Some h \<and> start_hour \<le> h \<and> h \<le> end_hour) \<and>
                 payment_label r \<in> set selected_payments) df \<and>
   (\<forall>r. r \<in> set (filtered_df df start_date end_date (start_hour, end_hour) selected_payments) \<longleftrightarrow>
        r \<in> set df \<and>
        (\<exists>d. map_option dt_date (tpep_pickup_datetime r) = Some d \<and>
             start_date \<le> d \<and> d \<le> end_date) \<and>
        (\<exists>h. pickup_hour r = Some h \<and> start_hour \<le> h \<and> h \<le> end_hour) \<and>
        payment_label r \<in> set selected_payments)"
  by (simp add: filtered_df_filter)

text \<open>
  C7. With no payment label selected the filter returns no row, whatever the data frame,
  the date range and the hour range.
\<close>

theorem filtered_df_no_payment_labels:
  "filtered_df df start_date end_date hour_range [] = []"
  by (simp add: filtered_df_filter)

text \<open>
  C9. The filter is idempotent: filtering its own output with the same date range, hour
  range and payment labels returns that output.
\<close>

theorem filtered_df_idempotent:
  "filtered_df (filtered_df df start_date end_date hour_range selected_payments)
       start_date end_date hour_range selected_payments =
     filtered_df df start_date end_date hour_range selected_payments"
  by (simp add: filtered_df_filter)

text \<open>The bounds for every value of the date picker: a pair is the range, any other tuple
  with a first date gives that date twice, the empty tuple and a date outside a tuple
  raise.\<close>

lemma date_bounds_cases:
  "date_bounds (DateTuple [a, b]) = Inr (a, b)"
  "date_bounds (DateTuple [d]) = Inr (d, d)"
  "date_bounds (DateTuple []) = Inl IndexError"
  "date_bounds (DateValue d) = Inl TypeError"
  by simp_all

text \<open>
  C8. When the date picker returns a single date \<open>d\<close> (a tuple of one date: only the start
  of the range is chosen), the filtered view is the one of the range from \<open>d\<close> to \<open>d\<close>.
\<close>

theorem single_date_is_range:
  "apply_filters df (DateTuple [d]) hour_range selected_payments =
     apply_filters df (DateTuple [d, d]) hour_range selected_payments \<and>
   apply_filters df (DateTuple [d]) hour_range selected_payments =
     Inr (filtered_df df d d hour_range selected_payments)"
  by (simp add: apply_filters_def)

section \<open>Key metrics\<close>

lemma key_metrics_Nil:
  "key_metrics [] =
     \<lparr>total_trips = ''0'', avg_fare = ''$nan'', total_revenue = ''$0'',
      avg_distance = ''nan mi'', avg_duration = ''nan min''\<rparr>"
  by (simp add: key_metrics_def format_int_comma_def format_float_def format_fixed_def
        series_mean_def series_sum_def round_half_even_def digit_def List.map_filter_simps)

text \<open>
  C4, as the code has it. On an empty filtered view the key metrics are computed without
  an error: the count is 0 and is shown as 0, the sum of the total amount is 0 and is
  shown as 0, and each of the three means is NaN and is shown as the text nan, with the
  currency sign or the unit around it. The code has no other state for a mean without
  data.
\<close>

theorem key_metrics_empty_view:
  "key_metrics [] =
     \<lparr>total_trips = ''0'', avg_fare = ''$nan'', total_revenue = ''$0'',
      avg_distance = ''nan mi'', avg_duration = ''nan min''\<rparr> \<and>
   key_metrics (filtered_df df start_date end_date hour_range []) = key_metrics [] \<and>
   series_mean [] = NaN \<and> series_sum [] = Fin 0"
  by (simp add: key_metrics_Nil filtered_df_filter series_mean_def series_sum_def
        List.map_filter_simps)

text \<open>The claim as stated fails on the empty view: the mean fare is NaN and is shown as
  such, and so are the mean distance and the mean duration.\<close>

theorem key_metrics_empty_view_counterexample:
  "series_mean (map fare_amount ([] :: labelled_trip list)) = NaN \<and>
   avg_fare (key_metrics []) = ''$nan'' \<and>
   avg_distance (key_metrics []) = ''nan mi'' \<and>
   avg_duration (key_metrics []) = ''nan min''"
  by (simp add: key_metrics_Nil series_mean_def List.map_filter_simps)

text \<open>The metrics of the two rows of the example.\<close>

lemma key_metrics_ex_df:
  "key_metrics ex_df =
     \<lparr>total_trips = ''2'', avg_fare = ''$12.50'', total_revenue = ''$30'',
      avg_distance = ''3.00 mi'', avg_duration = ''15.0 min''\<rparr>"
  by (simp add: ex_df_rows key_metrics_def format_int_comma_def format_float_def format_fixed_def
        series_mean_def series_sum_def round_half_even_def digit_def List.map_filter_simps
        add_payment_label_fields add_derived_raw add_derived_new duration_minutes_def ex_raw_def
        total_seconds_def time_defs)

lemma format_int_comma_example: "format_int_comma 1234567 = ''1,234,567''"
  by (simp add: format_int_comma_def digit_def)

section \<open>Top pickup zones\<close>

subsection \<open>Grouping and sorting\<close>



lemma groupby_size_keys:
  "map fst (groupby_size key rows) = sort (remdups (List.map_filter key rows))"
  by (simp add: groupby_size_def Let_def comp_def)


lemma groupby_size_sorted: "sorted (map fst (groupby_size key rows))"
  by (simp add: groupby_size_keys)


lemma groupby_size_sum:
  "sum_list (map snd (groupby_size key rows)) = length (List.map_filter key rows)"
proof -
  let ?ks = "List.map_filter key rows"
  have "sum_list (map snd (groupby_size key rows)) = sum_list (map (count_list ?ks) (sort (remdups ?ks)))"
    by (simp add: groupby_size_def Let_def comp_def)
  also have "\<dots> = sum (count_list ?ks) (set (sort (remdups ?ks)))"
    by (rule sum_list_distinct_conv_sum_set) simp
  also have "\<dots> = length ?ks"
    by (simp add: sum_count_set)
  finally show ?thesis .
qed

lemma length_map_filter_le: "length (List.map_filter key rows) \<le> length rows"
  by (induction rows) (auto simp: List.map_filter_simps split: option.splits)

lemma sort_values_desc_set: "out \<in> sort_values_desc rows \<Longrightarrow> set out = set rows"
  unfolding sort_values_desc_def by (auto dest: mset_eq_setD)

lemma sort_values_desc_length: "out \<in> sort_values_desc rows \<Longrightarrow> length out = length rows"
  unfolding sort_values_desc_def by (auto dest: mset_eq_length)

lemma sort_values_desc_sorted:
  "out \<in> sort_values_desc rows \<Longrightarrow> sorted_wrt (\<lambda>a b. snd b \<le> snd a) out"
  unfolding sort_values_desc_def by simp

lemma sort_values_desc_distinct:
  assumes "out \<in> sort_values_desc rows" and "distinct (map fst rows)"
  shows "distinct (map fst out)"
proof -
  from assms(1) have "mset (map fst out) = mset (map fst rows)"
    unfolding sort_values_desc_def by simp
  with assms(2) show ?thesis
    by (metis mset_eq_imp_distinct_iff)
qed

lemma sort_values_desc_sum:
  assumes "out \<in> sort_values_desc rows"
  shows "sum_list (map snd out) = sum_list (map snd rows)"
proof -
  from assms have "mset (map snd out) = mset (map snd rows)"
    unfolding sort_values_desc_def by simp
  then show ?thesis
    by (metis sum_mset_sum_list)
qed


lemma sum_list_take_le: "sum_list (take n (xs::nat list)) \<le> sum_list xs"
proof -
  have "sum_list xs = sum_list (take n xs) + sum_list (drop n xs)"
    by (metis append_take_drop_id sum_list_append)
  then show ?thesis by simp
qed

subsection \<open>The example: five trips from A, three from B, three from C\<close>

lemma ex_trip_PU: "PULocationID (ex_trip pu) = Some pu"
  by (simp add: ex_trip_def add_payment_label_fields add_derived_raw)

lemma merge_Cons: "merge (t # ts) zones = map (\<lambda>z. (t, z)) (filter (\<lambda>z. PULocationID t = Some (LocationID z)) zones) @ merge ts zones"
  by (simp add: merge_def)

lemma merge_Nil: "merge [] zones = []"
  by (simp add: merge_def)

lemma merge_append: "merge (xs @ ys) zones = merge xs zones @ merge ys zones"
  by (simp add: merge_def)

lemma zone_keys_ex:
  "List.map_filter (\<lambda>(t, z). Zone z) (merge ex_trips ex_zones) =
     [''A'', ''A'', ''A'', ''A'', ''A'', ''B'', ''B'', ''B'', ''C'', ''C'', ''C'']"
  by (simp add: ex_trips_def ex_zones_def merge_Cons merge_Nil merge_append ex_trip_PU
        numeral_eq_Suc List.map_filter_simps)

lemma zone_counts_ex: "zone_counts ex_trips ex_zones = [(''A'', 5), (''B'', 3), (''C'', 3)]"
  unfolding zone_counts_def groupby_size_def Let_def zone_keys_ex
  by (simp add: less_eq_char_def)

lemma sort_values_desc_ex:
  "sort_values_desc [(''A'', 5), (''B'', 3), (''C'', 3)] =
     {[(''A'', 5), (''B'', 3), (''C'', 3)], [(''A'', 5), (''C'', 3), (''B'', 3)]}"
  (is "sort_values_desc ?rows = {?l1, ?l2}")
proof (rule set_eqI, rule iffI)
  fix out assume out: "out \<in> sort_values_desc ?rows"
  then have len: "length out = 3"
    by (simp add: sort_values_desc_length)
  then obtain x y z where xyz: "out = [x, y, z]"
    by (auto simp: numeral_eq_Suc length_Suc_conv)
  from out have s: "set out = set ?rows"
    by (rule sort_values_desc_set)
  from out have "distinct (map fst out)"
    by (rule sort_values_desc_distinct) simp
  then have d: "distinct out"
    by (simp add: distinct_map)
  from out have so: "sorted_wrt (\<lambda>a b. snd b \<le> snd a) out"
    by (rule sort_values_desc_sorted)
  have mem: "x \<in> set ?rows" "y \<in> set ?rows" "z \<in> set ?rows"
    using s unfolding xyz by auto
  have ord: "snd y \<le> snd x" "snd z \<le> snd x"
    using so unfolding xyz by auto
  have ne: "x \<noteq> y" "x \<noteq> z" "y \<noteq> z"
    using d unfolding xyz by auto
  have "(''A'', 5) \<in> set out"
    unfolding s by simp
  then have "x = (''A'', 5) \<or> y = (''A'', 5) \<or> z = (''A'', 5)"
    unfolding xyz by auto
  with mem(1) ord ne(1,2) have x: "x = (''A'', 5)"
    by auto
  from mem(2,3) ne have "y = (''B'', 3) \<and> z = (''C'', 3) \<or> y = (''C'', 3) \<and> z = (''B'', 3)"
    unfolding x by auto
  then show "out \<in> {?l1, ?l2}"
    unfolding xyz x by auto
next
  fix out :: "(string \<times> nat) list"
  assume "out \<in> {?l1, ?l2}"
  then show "out \<in> sort_values_desc ?rows"
    by (auto simp: sort_values_desc_def)
qed

lemma top_zones_ex:
  "top_zones ex_trips ex_zones =
     {[(''A'', 5), (''B'', 3), (''C'', 3)], [(''A'', 5), (''C'', 3), (''B'', 3)]}"
  by (simp add: top_zones_def zone_counts_ex sort_values_desc_ex head_def)

subsection \<open>What every result of the aggregate satisfies\<close>




lemma top_zones_cases:
  assumes "out \<in> top_zones fdf zones"
  obtains ys where "ys \<in> sort_values_desc (zone_counts fdf zones)" and "out = take 10 ys"
  using assms unfolding top_zones_def head_def by auto










subsection \<open>Inner join\<close>

lemma merge_unzoned: "\<not> has_zone zones t \<Longrightarrow> merge (t # ts) zones = merge ts zones"
  by (auto simp: merge_Cons has_zone_def filter_empty_conv)

lemma merge_filter_has_zone: "merge (filter (has_zone zones) fdf) zones = merge fdf zones"
proof (induction fdf)
  case Nil
  show ?case by simp
next
  case (Cons t ts)
  show ?case
  proof (cases "has_zone zones t")
    case True
    with Cons show ?thesis by (simp add: merge_Cons)
  next
    case False
    with Cons show ?thesis by (simp add: merge_unzoned)
  qed
qed

lemma top_zones_filter_has_zone:
  "top_zones (filter (has_zone zones) fdf) zones = top_zones fdf zones"
  by (simp add: top_zones_def zone_counts_def merge_filter_has_zone)

lemma unique_key_match:
  assumes "distinct (map LocationID zones)"
  shows "length (filter (\<lambda>z. k = Some (LocationID z)) zones) \<le> 1"
  using assms
proof (induction zones)
  case Nil
  show ?case by simp
next
  case (Cons z zs)
  show ?case
  proof (cases "k = Some (LocationID z)")
    case True
    with Cons.prems have "filter (\<lambda>z. k = Some (LocationID z)) zs = []"
      by (auto simp: filter_empty_conv)
    with True show ?thesis by simp
  next
    case False
    with Cons show ?thesis by simp
  qed
qed

lemma length_merge_le:
  assumes "distinct (map LocationID zones)"
  shows "length (merge fdf zones) \<le> length (filter (has_zone zones) fdf)"
proof (induction fdf)
  case Nil
  show ?case by (simp add: merge_Nil)
next
  case (Cons t ts)
  show ?case
  proof (cases "has_zone zones t")
    case True
    from unique_key_match [OF assms, of "PULocationID t"] Cons True show ?thesis
      by (simp add: merge_Cons)
  next
    case False
    with Cons show ?thesis by (simp add: merge_unzoned)
  qed
qed

lemma top_zones_sum_le:
  assumes "out \<in> top_zones fdf zones"
  shows "sum_list (map snd out) \<le> length (merge fdf zones)"
proof -
  from assms obtain ys where ys: "ys \<in> sort_values_desc (zone_counts fdf zones)" and out: "out = take 10 ys"
    by (rule top_zones_cases)
  have "sum_list (map snd out) \<le> sum_list (map snd ys)"
    unfolding out using sum_list_take_le [of 10 "map snd ys"] by (simp add: take_map)
  also from ys have "\<dots> = sum_list (map snd (zone_counts fdf zones))"
    by (rule sort_values_desc_sum)
  also have "\<dots> \<le> length (merge fdf zones)"
    unfolding zone_counts_def groupby_size_sum by (rule length_map_filter_le)
  finally show ?thesis .
qed

text \<open>
  C10. The join is an inner join: the trips whose pickup location id has no row in the zone
  lookup do not count, the aggregate is the one of the other trips alone. With unique
  location ids in the lookup, the counts of a result add up to at most the number of
  trips that have a zone, so to less than the number of filtered trips as soon as one
  trip has none.
\<close>

theorem top_zones_inner_join:
  assumes "distinct (map LocationID zones)" and "out \<in> top_zones fdf zones"
    and "t \<in> set fdf" and "\<not> has_zone zones t"
  shows "top_zones (filter (has_zone zones) fdf) zones = top_zones fdf zones \<and>
         sum_list (map snd out) \<le> length (filter (has_zone zones) fdf) \<and>
         sum_list (map snd out) < length fdf"
proof -
  from assms(2) have "sum_list (map snd out) \<le> length (merge fdf zones)"
    by (rule top_zones_sum_le)
  also from assms(1) have "\<dots> \<le> length (filter (has_zone zones) fdf)"
    by (rule length_merge_le)
  finally have le: "sum_list (map snd out) \<le> length (filter (has_zone zones) fdf)" .
  from assms(3,4) have "length (filter (has_zone zones) fdf) < length fdf"
    by (rule length_filter_less)
  with le top_zones_filter_has_zone show ?thesis
    by simp
qed

lemma ex_trip_unzoned: "\<not> has_zone ex_zones (ex_trip 7)"
  by (simp add: has_zone_def ex_zones_def ex_trip_PU)

theorem top_zones_inner_join_witness:
  "distinct (map LocationID ex_zones) \<and>
   [(''A'', 5), (''B'', 3), (''C'', 3)] \<in> top_zones (ex_trip 7 # ex_trips) ex_zones \<and>
   ex_trip 7 \<in> set (ex_trip 7 # ex_trips) \<and>
   \<not> has_zone ex_zones (ex_trip 7) \<and>
   sum_list (map snd [(''A'', 5 :: nat), (''B'', 3), (''C'', 3)]) = 11 \<and>
   length (ex_trip 7 # ex_trips) = 12 \<and>
   sum_list (map snd [(''A'', 5 :: nat), (''B'', 3), (''C'', 3)]) < length (ex_trip 7 # ex_trips)"
proof -
  have a: "distinct (map LocationID ex_zones)"
    by (simp add: ex_zones_def)
  have "top_zones (ex_trip 7 # ex_trips) ex_zones = top_zones ex_trips ex_zones"
    by (simp add: top_zones_def zone_counts_def merge_unzoned ex_trip_unzoned)
  then have b: "[(''A'', 5), (''B'', 3), (''C'', 3)] \<in> top_zones (ex_trip 7 # ex_trips) ex_zones"
    by (simp add: top_zones_ex)
  have c: "ex_trip 7 \<in> set (ex_trip 7 # ex_trips)"
    by simp
  have l: "length (ex_trip 7 # ex_trips) = 12"
    by (simp add: ex_trips_def)
  from top_zones_inner_join [OF a b c ex_trip_unzoned] a b c l ex_trip_unzoned show ?thesis
    by simp
qed

end
